theory Spec2Isabelle
  imports Main
begin

section \<open>FarmAssist Pro: the AI-response normalisation pipeline\<close>

text \<open>
  A shallow embedding of \<^verbatim>\<open>src/main.py\<close>. The text that the program exchanges with the
  model is \<^typ>\<open>string\<close>: a list of characters with code points 0 to 255. The Python values
  that the endpoints handle all come from \<^verbatim>\<open>json.loads\<close>, so a datatype of decoded JSON
  values stands for them. A JSON text of such characters can still denote any character,
  by an escape: the decoder yields values whose strings are lists of code points
  (\<open>ujson\<close>), and the endpoints work on those of them that stay within code point 255
  (\<open>json\<close>, reached by \<open>narrow\<close>).
\<close>

subsection \<open>Python values\<close>

text \<open>
  A float is kept as the decimal literal it was read from, sign, digits and power of ten
  (\<open>FloatLit neg m e\<close> is \<open>\<plusminus> m \<times> 10^e\<close>), or as one of the three constants that the
  decoder accepts.
\<close>

datatype pyfloat = FloatLit bool nat int | FloatNaN | FloatInf bool

text \<open>
  A Python \<^verbatim>\<open>dict\<close> keeps its keys in insertion order: an association list without
  duplicate keys, written only through \<open>dict_set\<close>.
\<close>

datatype json =
    JNull
  | JBool bool
  | JInt int
  | JFloat pyfloat
  | JString string
  | JArray "json list"
  | JObject "(string \<times> json) list"

text \<open>
  What \<^verbatim>\<open>json.loads\<close> returns: the same values, with strings and keys as lists of code
  points (a \<^verbatim>\<open>\uXXXX\<close> escape reaches every code point of Unicode).
\<close>

datatype ujson =
    UNull
  | UBool bool
  | UInt int
  | UFloat pyfloat
  | UString "int list"
  | UArray "ujson list"
  | UObject "(int list \<times> ujson) list"

datatype py_exc =
    TypeError
  | AttributeError
  | KeyError
  | IndexError
  | ValueError
  | OSError
  | ProviderError
  | HTTPException nat string

text \<open>\<^verbatim>\<open>d[k] = v\<close>: an existing key keeps its place, a new key goes to the end.\<close>

fun dict_set :: "('k \<times> 'v) list \<Rightarrow> 'k \<Rightarrow> 'v \<Rightarrow> ('k \<times> 'v) list" where
  "dict_set [] k v = [(k, v)]"
| "dict_set ((k', v') # kvs) k v =
     (if k' = k then (k, v) # kvs else (k', v') # dict_set kvs k v)"

text \<open>The code points of a text, and the text of code points that are all below 256.\<close>

definition codes :: "string \<Rightarrow> int list" where
  "codes s = map of_char s"

definition narrow_str :: "int list \<Rightarrow> string option" where
  "narrow_str cs =
     (if list_all (\<lambda>c. 0 \<le> c \<and> c < 256) cs then Some (map char_of cs) else None)"

text \<open>
  \<open>narrow v\<close> is the decoded value \<open>v\<close> as a value over \<^typ>\<open>string\<close>; there is none when a
  string or a key of \<open>v\<close> holds a code point above 255.
\<close>

fun narrow :: "ujson \<Rightarrow> json option"
  and narrow_list :: "ujson list \<Rightarrow> json list option"
  and narrow_items :: "(int list \<times> ujson) list \<Rightarrow> (string \<times> json) list option"
where
  "narrow UNull = Some JNull"
| "narrow (UBool b) = Some (JBool b)"
| "narrow (UInt i) = Some (JInt i)"
| "narrow (UFloat f) = Some (JFloat f)"
| "narrow (UString s) = map_option JString (narrow_str s)"
| "narrow (UArray xs) = map_option JArray (narrow_list xs)"
| "narrow (UObject kvs) = map_option JObject (narrow_items kvs)"
| "narrow_list [] = Some []"
| "narrow_list (x # xs) =
     (case narrow x of
        None \<Rightarrow> None
      | Some y \<Rightarrow> map_option (\<lambda>ys. y # ys) (narrow_list xs))"
| "narrow_items [] = Some []"
| "narrow_items ((k, v) # kvs) =
     (case narrow_str k of
        None \<Rightarrow> None
      | Some k' \<Rightarrow>
          (case narrow v of
             None \<Rightarrow> None
           | Some v' \<Rightarrow> map_option (\<lambda>r. (k', v') # r) (narrow_items kvs)))"

subsection \<open>The standard library's JSON decoder\<close>

text \<open>
  \<^verbatim>\<open>json.loads\<close> is the standard library's; it is modelled after CPython's scanner
  (\<^verbatim>\<open>scan_once\<close>, \<^verbatim>\<open>scanstring\<close>, the number matcher, the object and array loops) in
  its default, strict configuration. The limits of the interpreter (the depth of
  recursion, the number of digits of an integer literal) are not modelled.
\<close>

definition is_ws :: "char \<Rightarrow> bool" where
  "is_ws c = (c = CHR '' '' \<or> c = CHR 0x09 \<or> c = CHR 0x0A \<or> c = CHR 0x0D)"

definition skip_ws :: "string \<Rightarrow> string" where
  "skip_ws s = dropWhile is_ws s"

definition is_digit :: "char \<Rightarrow> bool" where
  "is_digit c = (48 \<le> (of_char c :: nat) \<and> (of_char c :: nat) \<le> 57)"

definition digit_val :: "char \<Rightarrow> nat" where
  "digit_val c = (of_char c :: nat) - 48"

definition nat_of_digits :: "string \<Rightarrow> nat" where
  "nat_of_digits ds = foldl (\<lambda>a c. 10 * a + digit_val c) 0 ds"

definition hex_val :: "char \<Rightarrow> nat option" where
  "hex_val c =
     (let n = (of_char c :: nat) in
      if 48 \<le> n \<and> n \<le> 57 then Some (n - 48)
      else if 65 \<le> n \<and> n \<le> 70 then Some (n - 55)
      else if 97 \<le> n \<and> n \<le> 102 then Some (n - 87)
      else None)"

text \<open>The table \<^verbatim>\<open>BACKSLASH\<close> of one-letter escapes.\<close>

definition backslash :: "char \<Rightarrow> char option" where
  "backslash e =
     (if e = CHR 0x22 then Some (CHR 0x22)
      else if e = CHR 0x5C then Some (CHR 0x5C)
      else if e = CHR ''/'' then Some (CHR ''/'')
      else if e = CHR ''b'' then Some (CHR 0x08)
      else if e = CHR ''f'' then Some (CHR 0x0C)
      else if e = CHR ''n'' then Some (CHR 0x0A)
      else if e = CHR ''r'' then Some (CHR 0x0D)
      else if e = CHR ''t'' then Some (CHR 0x09)
      else None)"

text \<open>The four hexadecimal digits of a \<^verbatim>\<open>\uXXXX\<close> escape: a number below \<open>2^16\<close>.\<close>

definition decode_uXXXX :: "char \<Rightarrow> char \<Rightarrow> char \<Rightarrow> char \<Rightarrow> int option" where
  "decode_uXXXX a b c d =
     (case (hex_val a, hex_val b, hex_val c, hex_val d) of
        (Some x, Some y, Some z, Some w) \<Rightarrow>
          Some (((int x * 16 + int y) * 16 + int z) * 16 + int w)
      | _ \<Rightarrow> None)"

definition prepend :: "int \<Rightarrow> (int list \<times> string) option \<Rightarrow> (int list \<times> string) option" where
  "prepend c r = (case r of None \<Rightarrow> None | Some (s, rest) \<Rightarrow> Some (c # s, rest))"

text \<open>
  A high surrogate (\<^verbatim>\<open>D800\<close> to \<^verbatim>\<open>DBFF\<close>) followed by an escape of a low surrogate
  (\<^verbatim>\<open>DC00\<close> to \<^verbatim>\<open>DFFF\<close>) is one character above \<^verbatim>\<open>FFFF\<close>.
\<close>

definition join_surrogates :: "int \<Rightarrow> int \<Rightarrow> int" where
  "join_surrogates uni uni2 = 0x10000 + ((uni - 0xD800) * 0x400 + (uni2 - 0xDC00))"

text \<open>
  \<open>unicode_escape\<close> reads what follows \<^verbatim>\<open>\u\<close>: the code point and the text behind the
  escape. After a high surrogate, a second escape is read at once: it is an error when
  malformed, joined when it is a low surrogate, and left in the text otherwise.
\<close>

definition unicode_escape :: "string \<Rightarrow> (int \<times> string) option" where
  "unicode_escape r =
     (case r of
        h1 # h2 # h3 # h4 # r' \<Rightarrow>
          (case decode_uXXXX h1 h2 h3 h4 of
             None \<Rightarrow> None
           | Some uni \<Rightarrow>
               if 0xD800 \<le> uni \<and> uni \<le> 0xDBFF \<and> take 2 r' = [CHR 0x5C, CHR ''u'']
                  \<and> 6 \<le> length r'
               then
                 (case decode_uXXXX (r' ! 2) (r' ! 3) (r' ! 4) (r' ! 5) of
                    None \<Rightarrow> None
                  | Some uni2 \<Rightarrow>
                      if 0xDC00 \<le> uni2 \<and> uni2 \<le> 0xDFFF
                      then Some (join_surrogates uni uni2, drop 6 r')
                      else Some (uni, r'))
               else Some (uni, r'))
      | _ \<Rightarrow> None)"

lemma unicode_escape_shorter: "unicode_escape r = Some (uni, r') \<Longrightarrow> length r' < length r"
  by (auto simp: unicode_escape_def split: list.splits option.splits if_splits)

text \<open>
  \<open>scanstring\<close> reads a string body, the opening quote already consumed: the code
  points of the decoded string and the text after the closing quote. A control character
  is an error (strict).
\<close>

function (sequential) scanstring :: "string \<Rightarrow> (int list \<times> string) option" where
  "scanstring [] = None"
| "scanstring (c # cs) =
     (if c = CHR 0x22 then Some ([], cs)
      else if c = CHR 0x5C then
        (case cs of
           [] \<Rightarrow> None
         | e # r \<Rightarrow>
             if e = CHR ''u'' then
               (case unicode_escape r of
                  None \<Rightarrow> None
                | Some (uni, r') \<Rightarrow> prepend uni (scanstring r'))
             else
               (case backslash e of
                  None \<Rightarrow> None
                | Some ch \<Rightarrow> prepend (of_char ch) (scanstring r)))
      else if (of_char c :: nat) < 32 then None
      else prepend (of_char c) (scanstring cs))"
  by pat_completeness auto

termination
proof (relation "measure length", goal_cases)
  case 1
  show ?case by simp
next
  case (2 c cs e r x2 uni r')
  then show ?case using unicode_escape_shorter [of r uni r'] by simp
next
  case (3 c cs e r ch)
  then show ?case by simp
next
  case (4 c cs)
  then show ?case by simp
qed

text \<open>The exponent of a number: \<^verbatim>\<open>[eE][-+]?[0-9]+\<close>, or nothing consumed.\<close>

definition match_exponent :: "string \<Rightarrow> int option \<times> string" where
  "match_exponent s =
     (case s of
        [] \<Rightarrow> (None, s)
      | e # r \<Rightarrow>
          if e = CHR ''e'' \<or> e = CHR ''E'' then
            (let (sg, r') =
               (case r of
                  [] \<Rightarrow> (1 :: int, r)
                | x # r'' \<Rightarrow>
                    if x = CHR ''-'' then (- 1, r'')
                    else if x = CHR ''+'' then (1, r'')
                    else (1, r))
             in case r' of
                  [] \<Rightarrow> (None, s)
                | dg # _ \<Rightarrow>
                    if is_digit dg
                    then (Some (sg * int (nat_of_digits (takeWhile is_digit r'))),
                          dropWhile is_digit r')
                    else (None, s))
          else (None, s))"

text \<open>The fraction of a number: \<^verbatim>\<open>\.[0-9]+\<close>, or nothing consumed.\<close>

definition match_fraction :: "string \<Rightarrow> string \<times> string" where
  "match_fraction s =
     (case s of
        p # f # r \<Rightarrow>
          if p = CHR ''.'' \<and> is_digit f
          then (takeWhile is_digit (f # r), dropWhile is_digit (f # r))
          else ([], s)
      | _ \<Rightarrow> ([], s))"

text \<open>
  \<^verbatim>\<open>-?(0|[1-9][0-9]*)(\.[0-9]+)?([eE][-+]?[0-9]+)?\<close>: an \<^verbatim>\<open>int\<close> when there is neither
  fraction nor exponent, a \<^verbatim>\<open>float\<close> otherwise.
\<close>

definition match_number :: "string \<Rightarrow> (ujson \<times> string) option" where
  "match_number s =
     (let (neg, s1) =
        (case s of
           [] \<Rightarrow> (False, s)
         | c # r \<Rightarrow> if c = CHR ''-'' then (True, r) else (False, s))
      in case s1 of
           [] \<Rightarrow> None
         | d # r \<Rightarrow>
             if \<not> is_digit d then None
             else
               (let (ip, s2) =
                  (if d = CHR ''0'' then ([d], r)
                   else (takeWhile is_digit s1, dropWhile is_digit s1));
                    (fp, s3) = match_fraction s2;
                    (ex, s4) = match_exponent s3
                in if fp = [] \<and> ex = None
                   then Some (UInt ((if neg then - 1 else 1) * int (nat_of_digits ip)), s4)
                   else Some (UFloat (FloatLit neg (nat_of_digits (ip @ fp))
                                       ((case ex of None \<Rightarrow> 0 | Some e \<Rightarrow> e) - int (length fp))),
                              s4)))"

lemma length_skip_ws: "length (skip_ws s) \<le> length s"
  by (simp add: skip_ws_def length_dropWhile_le)

lemma length_prepend:
  "prepend c r = Some (s, rest) \<Longrightarrow> \<exists>s'. r = Some (s', rest)"
  by (auto simp: prepend_def split: option.splits)

lemma scanstring_shorter: "scanstring s = Some (str, rest) \<Longrightarrow> length rest < length s"
proof (induction s arbitrary: str rest rule: scanstring.induct)
  case 1
  then show ?case by simp
next
  case (2 c cs)
  from "2.prems" "2.IH" show ?case
    by (fastforce split: if_splits list.splits option.splits
          dest!: length_prepend dest: unicode_escape_shorter)
qed

lemma skip_ws_Cons: "skip_ws s = d # r \<Longrightarrow> length r < length s"
  using length_skip_ws [of s] by simp

text \<open>
  \<open>scan_once\<close> reads one JSON value at the head of the text. \<open>parse_array\<close> and
  \<open>parse_object\<close> are the loops of the array and object readers, entered after the
  opening bracket and the white space behind it, when the container is not empty; the
  accumulator holds what was read so far. The tests \<open>length r < length s\<close> make the
  recursion well founded; \<open>scan_once_shorter\<close> below shows that they never fail.
\<close>

function (sequential) scan_once :: "string \<Rightarrow> (ujson \<times> string) option"
  and parse_array :: "ujson list \<Rightarrow> string \<Rightarrow> (ujson \<times> string) option"
  and parse_object :: "(int list \<times> ujson) list \<Rightarrow> string \<Rightarrow> (ujson \<times> string) option"
where
  "scan_once [] = None"
| "scan_once (c # cs) =
     (if c = CHR 0x22 then
        (case scanstring cs of None \<Rightarrow> None | Some (str, r) \<Rightarrow> Some (UString str, r))
      else if c = CHR ''{'' then
        (case skip_ws cs of
           [] \<Rightarrow> None
         | d # r \<Rightarrow> if d = CHR ''}'' then Some (UObject [], r) else parse_object [] (d # r))
      else if c = CHR ''['' then
        (case skip_ws cs of
           [] \<Rightarrow> None
         | d # r \<Rightarrow> if d = CHR '']'' then Some (UArray [], r) else parse_array [] (d # r))
      else if c = CHR ''n'' \<and> take 3 cs = ''ull'' then Some (UNull, drop 3 cs)
      else if c = CHR ''t'' \<and> take 3 cs = ''rue'' then Some (UBool True, drop 3 cs)
      else if c = CHR ''f'' \<and> take 4 cs = ''alse'' then Some (UBool False, drop 4 cs)
      else
        (case match_number (c # cs) of
           Some res \<Rightarrow> Some res
         | None \<Rightarrow>
             if c = CHR ''N'' \<and> take 2 cs = ''aN'' then Some (UFloat FloatNaN, drop 2 cs)
             else if c = CHR ''I'' \<and> take 7 cs = ''nfinity''
               then Some (UFloat (FloatInf False), drop 7 cs)
             else if c = CHR ''-'' \<and> take 8 cs = ''Infinity''
               then Some (UFloat (FloatInf True), drop 8 cs)
             else None))"
| "parse_array acc s =
     (case scan_once s of
        None \<Rightarrow> None
      | Some (v, r) \<Rightarrow>
          if length r < length s then
            (case skip_ws r of
               [] \<Rightarrow> None
             | d # r2 \<Rightarrow>
                 if d = CHR '']'' then Some (UArray (acc @ [v]), r2)
                 else if d = CHR '','' then parse_array (acc @ [v]) (skip_ws r2)
                 else None)
          else None)"
| "parse_object acc s =
     (case s of
        [] \<Rightarrow> None
      | q # s1 \<Rightarrow>
          if q \<noteq> CHR 0x22 then None
          else
            (case scanstring s1 of
               None \<Rightarrow> None
             | Some (key, r) \<Rightarrow>
                 (case skip_ws r of
                    [] \<Rightarrow> None
                  | colon # r1 \<Rightarrow>
                      if colon \<noteq> CHR '':'' then None
                      else
                        (case scan_once (skip_ws r1) of
                           None \<Rightarrow> None
                         | Some (v, r2) \<Rightarrow>
                             if length r2 < length s then
                               (case skip_ws r2 of
                                  [] \<Rightarrow> None
                                | d # r3 \<Rightarrow>
                                    if d = CHR ''}'' then Some (UObject (dict_set acc key v), r3)
                                    else if d = CHR '','' then
                                      parse_object (dict_set acc key v) (skip_ws r3)
                                    else None)
                             else None))))"
  by pat_completeness auto

termination
proof (relation "measure (\<lambda>x. case x of
            Inl s \<Rightarrow> 2 * length s
          | Inr (Inl (acc, s)) \<Rightarrow> 2 * length s + 1
          | Inr (Inr (acc, s)) \<Rightarrow> 2 * length s + 1)", goal_cases)
  case 1
  show ?case by simp
next
  case (2 c cs d r)
  then show ?case using skip_ws_Cons [of cs d r] by simp
next
  case (3 c cs d r)
  then show ?case using skip_ws_Cons [of cs d r] by simp
next
  case (4 acc s)
  show ?case by simp
next
  case (5 acc s x2 v r d r2)
  then show ?case
    using skip_ws_Cons [of r d r2] length_skip_ws [of r2] by simp
next
  case (6 acc s q s1 x2 key r colon r1)
  then show ?case
    using scanstring_shorter [of s1 key r] skip_ws_Cons [of r colon r1] length_skip_ws [of r1]
    by simp
next
  case (7 acc s q s1 x2 key r colon r1 x2a v r2 d r3)
  then show ?case
    using skip_ws_Cons [of r2 d r3] length_skip_ws [of r3] by simp
qed

lemma dropWhile_le: "length u \<le> n \<Longrightarrow> length (dropWhile P u) \<le> n"
  by (rule le_trans [OF length_dropWhile_le])

lemma match_fraction_le: "length (snd (match_fraction s)) \<le> length s"
  by (auto simp: match_fraction_def split: list.splits intro!: dropWhile_le)

lemma match_exponent_le: "length (snd (match_exponent s)) \<le> length s"
  by (auto simp: match_exponent_def split: list.splits intro!: dropWhile_le)

lemma match_number_shorter: "match_number s = Some (v, r) \<Longrightarrow> length r < length s"
proof -
  assume a: "match_number s = Some (v, r)"
  define s1 where "s1 = (case s of [] \<Rightarrow> s | c # t \<Rightarrow> if c = CHR ''-'' then t else s)"
  have s1: "length s1 \<le> length s"
    by (auto simp: s1_def split: list.splits)
  from a obtain d t where dt: "s1 = d # t" and dig: "is_digit d"
    by (cases s1) (auto simp: match_number_def s1_def split: list.splits if_splits)
  define s2 where "s2 = (if d = CHR ''0'' then t else dropWhile is_digit s1)"
  have "length (dropWhile is_digit t) \<le> length t"
    by (rule length_dropWhile_le)
  with dt dig have s2: "length s2 \<le> length t"
    by (simp add: s2_def)
  define s3 where "s3 = snd (match_fraction s2)"
  define s4 where "s4 = snd (match_exponent s3)"
  have "length s4 \<le> length s2"
    unfolding s4_def s3_def
    using match_fraction_le [of s2] match_exponent_le [of "snd (match_fraction s2)"]
    by simp
  moreover from a dt dig have "r = s4"
    by (auto simp: match_number_def s1_def s2_def s3_def s4_def Let_def
             split: list.splits if_splits prod.splits)
  ultimately show ?thesis using s1 s2 dt by simp
qed

declare parse_array.simps [simp del] parse_object.simps [simp del]

text \<open>Every reader consumes at least one character, so the tests above always hold.\<close>

lemma scan_shorter:
  "scan_once s = Some (v, r) \<Longrightarrow> length r < length s"
  "parse_array acc s = Some (v, r) \<Longrightarrow> length r < length s"
  "parse_object acc' s = Some (v, r) \<Longrightarrow> length r < length s"
proof (induction s and acc s and acc' s arbitrary: v r and v r and v r
       rule: scan_once_parse_array_parse_object.induct)
  case 1
  then show ?case by simp
next
  case (2 c cs)
  from "2.prems" "2.IH" show ?case
    by (fastforce split: if_splits option.splits list.splits
          dest!: scanstring_shorter skip_ws_Cons match_number_shorter)
next
  case (3 acc s)
  note unf = "3.prems" [unfolded parse_array.simps [of acc s]]
  from unf obtain v0 r0 where s0: "scan_once s = Some (v0, r0)"
    and lt: "length r0 < length s"
    by (auto split: option.splits if_splits)
  with unf obtain d r2 where sk: "skip_ws r0 = d # r2"
    by (cases "skip_ws r0") auto
  show ?case
  proof (cases "d = CHR '']''")
    case True
    with unf s0 lt sk have "r = r2"
      by simp
    with skip_ws_Cons [OF sk] lt show ?thesis by simp
  next
    case False
    with unf s0 lt sk have comma: "d = CHR '',''"
      and call: "parse_array (acc @ [v0]) (skip_ws r2) = Some (v, r)"
      by (auto split: if_splits)
    from "3.IH"(2) [OF s0 refl lt sk False comma call]
    have "length r < length (skip_ws r2)" .
    with length_skip_ws [of r2] skip_ws_Cons [OF sk] lt show ?thesis by simp
  qed
next
  case (4 acc s)
  note unf = "4.prems" [unfolded parse_object.simps [of acc s]]
  from unf obtain s1 key r0 r1 v0 r2 where s: "s = CHR 0x22 # s1"
    and ss: "scanstring s1 = Some (key, r0)"
    and sk: "skip_ws r0 = CHR '':'' # r1"
    and so: "scan_once (skip_ws r1) = Some (v0, r2)"
    and lt: "length r2 < length s"
    by (auto split: list.splits option.splits if_splits)
  with unf obtain d r3 where sk2: "skip_ws r2 = d # r3"
    by (cases "skip_ws r2") auto
  show ?case
  proof (cases "d = CHR ''}''")
    case True
    with unf s ss sk so lt sk2 have "r = r3"
      by simp
    with skip_ws_Cons [OF sk2] lt show ?thesis by simp
  next
    case False
    with unf s ss sk so lt sk2 have comma: "d = CHR '',''"
      and call: "parse_object (dict_set acc key v0) (skip_ws r3) = Some (v, r)"
      by (auto split: if_splits)
    have "length r < length (skip_ws r3)"
      by (rule "4.IH"(2) [OF s _ ss refl sk _ so refl _ sk2 False comma call])
         (use lt s in simp_all)
    with length_skip_ws [of r3] skip_ws_Cons [OF sk2] lt show ?thesis by simp
  qed
qed

text \<open>
  \<^verbatim>\<open>json.loads(s)\<close>: white space, one value, white space, end of text. Anything else
  raises \<^verbatim>\<open>JSONDecodeError\<close>, a \<^verbatim>\<open>ValueError\<close>.
\<close>

definition json_loads :: "string \<Rightarrow> py_exc + ujson" where
  "json_loads s =
     (case scan_once (skip_ws s) of
        None \<Rightarrow> Inl ValueError
      | Some (obj, r) \<Rightarrow> if skip_ws r = [] then Inr obj else Inl ValueError)"

subsection \<open>The JSON extractor\<close>

text \<open>
  \<^verbatim>\<open>re.search(r'\{[\s\S]*\}', text)\<close>: the leftmost match starts at the first \<^verbatim>\<open>{\<close>, and
  the greedy star runs to the last \<^verbatim>\<open>}\<close> behind it. There is no match when no \<^verbatim>\<open>}\<close>
  follows the first \<^verbatim>\<open>{\<close>.
\<close>

definition re_search_braces :: "string \<Rightarrow> string option" where
  "re_search_braces text =
     (case dropWhile (\<lambda>c. c \<noteq> CHR ''{'') text of
        [] \<Rightarrow> None
      | b # rest \<Rightarrow>
          if CHR ''}'' \<in> set rest
          then Some (b # rev (dropWhile (\<lambda>c. c \<noteq> CHR ''}'') (rev rest)))
          else None)"

definition safe_json_parse :: "string \<Rightarrow> ujson" where
  "safe_json_parse text =
     (case (case re_search_braces text of
              Some m \<Rightarrow> json_loads m
            | None \<Rightarrow> json_loads text) of
        Inr v \<Rightarrow> v
      | Inl e \<Rightarrow> UObject [])"

text \<open>The length tests are no restriction: the loops satisfy the equations without them.\<close>

lemma parse_array_eq:
  "parse_array acc s =
     (case scan_once s of
        None \<Rightarrow> None
      | Some (v, r) \<Rightarrow>
          (case skip_ws r of
             [] \<Rightarrow> None
           | d # r2 \<Rightarrow>
               if d = CHR '']'' then Some (UArray (acc @ [v]), r2)
               else if d = CHR '','' then parse_array (acc @ [v]) (skip_ws r2)
               else None))"
  by (subst parse_array.simps) (auto split: option.splits dest: scan_shorter(1))

lemma parse_object_eq:
  "parse_object acc (CHR 0x22 # s1) =
     (case scanstring s1 of
        None \<Rightarrow> None
      | Some (key, r) \<Rightarrow>
          (case skip_ws r of
             [] \<Rightarrow> None
           | colon # r1 \<Rightarrow>
               if colon \<noteq> CHR '':'' then None
               else
                 (case scan_once (skip_ws r1) of
                    None \<Rightarrow> None
                  | Some (v, r2) \<Rightarrow>
                      (case skip_ws r2 of
                         [] \<Rightarrow> None
                       | d # r3 \<Rightarrow>
                           if d = CHR ''}'' then Some (UObject (dict_set acc key v), r3)
                           else if d = CHR '','' then
                             parse_object (dict_set acc key v) (skip_ws r3)
                           else None))))"
proof -
  have "length r2 < Suc (length s1)"
    if "scanstring s1 = Some (key, r)" "skip_ws r = colon # r1"
       "scan_once (skip_ws r1) = Some (v, r2)" for key r colon r1 v r2
    using that scanstring_shorter [of s1 key r] skip_ws_Cons [of r colon r1]
      length_skip_ws [of r1] scan_shorter(1) [of "skip_ws r1" v r2]
    by simp
  then show ?thesis
    by (subst parse_object.simps) (auto split: option.splits list.splits)
qed

subsection \<open>Python operations on decoded values\<close>

text \<open>
  A float read from a decimal literal is zero when its digits are, or when the literal
  is at most \<open>2^-1075\<close>, half the least positive double, which rounds to zero.
\<close>

definition float_is_zero :: "pyfloat \<Rightarrow> bool" where
  "float_is_zero f =
     (case f of
        FloatLit neg m e \<Rightarrow> m = 0 \<or> (e < 0 \<and> m * 2 ^ 1075 \<le> 10 ^ nat (- e))
      | FloatNaN \<Rightarrow> False
      | FloatInf neg \<Rightarrow> False)"

text \<open>\<^verbatim>\<open>bool(x)\<close>, the test behind \<^verbatim>\<open>not x\<close>, \<^verbatim>\<open>x or y\<close> and \<^verbatim>\<open>if x\<close>.\<close>

definition truthy :: "json \<Rightarrow> bool" where
  "truthy x =
     (case x of
        JNull \<Rightarrow> False
      | JBool b \<Rightarrow> b
      | JInt i \<Rightarrow> i \<noteq> 0
      | JFloat f \<Rightarrow> \<not> float_is_zero f
      | JString s \<Rightarrow> s \<noteq> []
      | JArray xs \<Rightarrow> xs \<noteq> []
      | JObject kvs \<Rightarrow> kvs \<noteq> [])"

definition py_or :: "json \<Rightarrow> json \<Rightarrow> json" where
  "py_or x y = (if truthy x then x else y)"

definition is_prefix :: "string \<Rightarrow> string \<Rightarrow> bool" where
  "is_prefix k s = (take (length k) s = k)"

text \<open>\<^verbatim>\<open>k in s\<close> on strings: \<open>k\<close> occurs in \<open>s\<close> as a contiguous substring.\<close>

fun is_substring :: "string \<Rightarrow> string \<Rightarrow> bool" where
  "is_substring k [] = (k = [])"
| "is_substring k (c # cs) = (is_prefix k (c # cs) \<or> is_substring k cs)"

definition dict_get :: "(string \<times> json) list \<Rightarrow> string \<Rightarrow> json \<Rightarrow> json" where
  "dict_get kvs k dflt = (case map_of kvs k of Some v \<Rightarrow> v | None \<Rightarrow> dflt)"

text \<open>\<^verbatim>\<open>x.get(k, default)\<close>: only a \<^verbatim>\<open>dict\<close> has the method.\<close>

definition py_get :: "json \<Rightarrow> string \<Rightarrow> json \<Rightarrow> py_exc + json" where
  "py_get x k dflt =
     (case x of JObject kvs \<Rightarrow> Inr (dict_get kvs k dflt) | _ \<Rightarrow> Inl AttributeError)"

text \<open>
  \<^verbatim>\<open>k in x\<close> for a string \<open>k\<close>: a key of a \<^verbatim>\<open>dict\<close>, an element of a list, a substring
  of a string; the other values are not containers.
\<close>

definition py_contains :: "string \<Rightarrow> json \<Rightarrow> py_exc + bool" where
  "py_contains k x =
     (case x of
        JObject kvs \<Rightarrow> Inr (k \<in> set (map fst kvs))
      | JArray xs \<Rightarrow> Inr (JString k \<in> set xs)
      | JString s \<Rightarrow> Inr (is_substring k s)
      | _ \<Rightarrow> Inl TypeError)"

text \<open>\<^verbatim>\<open>x[0]\<close>. The keys of a decoded \<^verbatim>\<open>dict\<close> are strings, so \<^verbatim>\<open>0\<close> is never one.\<close>

definition py_index0 :: "json \<Rightarrow> py_exc + json" where
  "py_index0 x =
     (case x of
        JArray xs \<Rightarrow> (case xs of [] \<Rightarrow> Inl IndexError | y # _ \<Rightarrow> Inr y)
      | JString s \<Rightarrow> (case s of [] \<Rightarrow> Inl IndexError | c # _ \<Rightarrow> Inr (JString [c]))
      | JObject kvs \<Rightarrow> Inl KeyError
      | _ \<Rightarrow> Inl TypeError)"

text \<open>What a \<^verbatim>\<open>for\<close> loop or a comprehension runs over.\<close>

definition py_iter :: "json \<Rightarrow> py_exc + json list" where
  "py_iter x =
     (case x of
        JArray xs \<Rightarrow> Inr xs
      | JString s \<Rightarrow> Inr (map (\<lambda>c. JString [c]) s)
      | JObject kvs \<Rightarrow> Inr (map (\<lambda>kv. JString (fst kv)) kvs)
      | _ \<Rightarrow> Inl TypeError)"

definition digit_char :: "nat \<Rightarrow> char" where
  "digit_char d = char_of (48 + d)"

function str_nat :: "nat \<Rightarrow> string" where
  "str_nat n = (if n < 10 then [digit_char n] else str_nat (n div 10) @ [digit_char (n mod 10)])"
  by pat_completeness auto
termination
  by (relation "measure (\<lambda>n. n)") auto

declare str_nat.simps [simp del]

definition str_int :: "int \<Rightarrow> string" where
  "str_int i = (if i < 0 then CHR ''-'' # str_nat (nat (- i)) else str_nat (nat i))"

text \<open>
  \<^verbatim>\<open>str(x)\<close>, as an f-string formats a value. The text of a float, a list or a
  \<^verbatim>\<open>dict\<close> is left to the parameter \<open>repr\<close>.
\<close>

definition py_str :: "(json \<Rightarrow> string) \<Rightarrow> json \<Rightarrow> string" where
  "py_str repr x =
     (case x of
        JString s \<Rightarrow> s
      | JInt i \<Rightarrow> str_int i
      | JBool b \<Rightarrow> (if b then ''True'' else ''False'')
      | JNull \<Rightarrow> ''None''
      | _ \<Rightarrow> repr x)"

definition py_isspace :: "char \<Rightarrow> bool" where
  "py_isspace c =
     (let n = (of_char c :: nat) in
      (9 \<le> n \<and> n \<le> 13) \<or> (28 \<le> n \<and> n \<le> 32) \<or> n = 133 \<or> n = 160)"

definition py_strip :: "string \<Rightarrow> string" where
  "py_strip s = rev (dropWhile py_isspace (rev (dropWhile py_isspace s)))"

definition py_lower_char :: "char \<Rightarrow> char" where
  "py_lower_char c =
     (let n = (of_char c :: nat) in
      if (65 \<le> n \<and> n \<le> 90) \<or> (192 \<le> n \<and> n \<le> 222 \<and> n \<noteq> 215)
      then char_of (n + 32) else c)"

definition py_lower :: "string \<Rightarrow> string" where
  "py_lower s = map py_lower_char s"

definition ebind :: "py_exc + 'a \<Rightarrow> ('a \<Rightarrow> py_exc + 'b) \<Rightarrow> py_exc + 'b" where
  "ebind m f = (case m of Inl e \<Rightarrow> Inl e | Inr x \<Rightarrow> f x)"

subsection \<open>The model gateway\<close>

text \<open>
  The generative model is outside the program. A request is a prompt, with an image for
  the analysis calls; the call raises, or returns a response whose \<^verbatim>\<open>text\<close> is a string
  or \<^verbatim>\<open>None\<close>. The environment fixes what the \<open>n\<close>-th call of a run answers to a request, so
  any behaviour of the provider is an environment; the state threaded through the
  program is the number of calls issued so far. The environment also holds the image
  decoder and Python's text for floats and containers.
\<close>

type_synonym image = string

datatype request = TextPrompt string | ImagePrompt string image

datatype response = Raises | Returns "string option"

record env =
  generate_content :: "nat \<Rightarrow> request \<Rightarrow> response"
  pil_open :: "string \<Rightarrow> image option"
  py_repr :: "json \<Rightarrow> string"

text \<open>\<^verbatim>\<open>resp.text or ""\<close>\<close>

definition text_or_empty :: "string option \<Rightarrow> string" where
  "text_or_empty t = (case t of None \<Rightarrow> [] | Some s \<Rightarrow> s)"

subsection \<open>The field translator\<close>

definition translate_prompt :: "string \<Rightarrow> string \<Rightarrow> string" where
  "translate_prompt lang_name text =
     ''Translate this to '' @ lang_name @ ''. Return only the translated text:''
       @ [CHR 0x0A, CHR 0x0A] @ text"

definition lang_name :: "string \<Rightarrow> string" where
  "lang_name target_lang =
     (if target_lang = ''hi'' then ''Hindi''
      else if target_lang = ''kn'' then ''Kannada'' else ''English'')"

text \<open>
  The result is the argument itself on the first return and in the handler, a string
  after a call that returned; the second component is the number of calls issued.
\<close>

definition translate_text :: "env \<Rightarrow> json \<Rightarrow> string \<Rightarrow> nat \<Rightarrow> json \<times> nat" where
  "translate_text E text target_lang n =
     (if \<not> truthy text \<or> target_lang = ''en'' then (text, n)
      else
        (let prompt = translate_prompt (lang_name target_lang) (py_str (py_repr E) text)
         in case generate_content E n (TextPrompt prompt) of
              Returns t \<Rightarrow> (JString (py_strip (text_or_empty t)), n + 1)
            | Raises \<Rightarrow> (text, n + 1)))"

text \<open>The comprehension of \<open>translate_list\<close>: one call of \<open>translate_text\<close> per element, in order.\<close>

fun translate_each :: "env \<Rightarrow> json list \<Rightarrow> string \<Rightarrow> nat \<Rightarrow> json list \<times> nat" where
  "translate_each E [] lang n = ([], n)"
| "translate_each E (x # xs) lang n =
     (let (y, n1) = translate_text E x lang n;
          (ys, n2) = translate_each E xs lang n1
      in (y # ys, n2))"

definition translate_list :: "env \<Rightarrow> json \<Rightarrow> string \<Rightarrow> nat \<Rightarrow> (py_exc + json list) \<times> nat" where
  "translate_list E items lang n =
     (case py_iter (py_or items (JArray [])) of
        Inl e \<Rightarrow> (Inl e, n)
      | Inr xs \<Rightarrow> (let (ys, n') = translate_each E xs lang n in (Inr ys, n')))"

subsection \<open>The medicine link\<close>

definition mapping :: "(string \<times> string) list" where
  "mapping =
     [(''mancozeb'', ''https://www.bighaat.com/products/indofil-m-45-mancozeb-75-wp-500-gm''),
      (''propiconazole'', ''https://www.bighaat.com/products/tilt-propiconazole-25-ec''),
      (''copper oxychloride'', ''https://www.bighaat.com/products/copper-oxychloride-50-wp-500gm''),
      (''carbendazim'', ''https://www.bighaat.com/products/bavistin-carbendazim-50-wp-100-gm''),
      (''sulphur'', ''https://www.bighaat.com/products/sulfex-80-wdg-sulphur-1-kg''),
      (''imidacloprid'', ''https://www.bighaat.com/products/command-imidacloprid-17-8-sl''),
      (''chlorpyrifos'', ''https://www.bighaat.com/collections/insecticides''),
      (''acetamiprid'', ''https://www.bighaat.com/collections/insecticides''),
      (''thiamethoxam'', ''https://www.bighaat.com/collections/insecticides''),
      (''neem'', ''https://www.bighaat.com/products/neem-oil-azadirachtin-300-ppm''),
      (''urea'', ''https://www.bighaat.com/collections/fertilizers''),
      (''npk'', ''https://www.bighaat.com/collections/fertilizers''),
      (''dap'', ''https://www.bighaat.com/collections/fertilizers'')]"

definition fallback_url :: string where
  "fallback_url = ''https://www.bighaat.com/collections/pest-disease-management''"

text \<open>The loop \<^verbatim>\<open>for key, url in mapping: if key in t: return url\<close> and the return behind it.\<close>

fun first_match :: "(string \<times> string) list \<Rightarrow> string \<Rightarrow> string" where
  "first_match [] t = fallback_url"
| "first_match ((key, url) # rest) t = (if is_substring key t then url else first_match rest t)"

definition get_medicine_link :: "json \<Rightarrow> py_exc + string" where
  "get_medicine_link primary_text =
     (case py_or primary_text (JString []) of
        JString s \<Rightarrow> Inr (first_match mapping (py_lower s))
      | _ \<Rightarrow> Inl AttributeError)"

subsection \<open>Statements that issue model calls\<close>

text \<open>
  A statement of an analysis endpoint runs from a number of calls issued so far to a
  value or an exception, and the number of calls issued then. The result \<open>None\<close> is not a
  behaviour of the program: it says that the run has left this model, because the data
  decoded from the model's answer hold a character above code point 255 (see
  \<open>ask_gemini_json\<close>). \<open>ret\<close> is a value, \<open>raise\<close> an exception, \<open>pure\<close> an expression that
  issues no call, \<open>total\<close> a call of a function that raises nothing, \<open>fallible\<close> a call of a
  function that may raise, and \<open>andthen\<close> the sequence of two statements.
\<close>

type_synonym 'a prog = "nat \<Rightarrow> ((py_exc + 'a) \<times> nat) option"

definition ret :: "'a \<Rightarrow> 'a prog" where
  "ret x n = Some (Inr x, n)"

definition raise :: "py_exc \<Rightarrow> 'a prog" where
  "raise e n = Some (Inl e, n)"

definition pure :: "py_exc + 'a \<Rightarrow> 'a prog" where
  "pure r n = Some (r, n)"

definition total :: "(nat \<Rightarrow> 'a \<times> nat) \<Rightarrow> 'a prog" where
  "total f n = (case f n of (x, n') \<Rightarrow> Some (Inr x, n'))"

definition fallible :: "(nat \<Rightarrow> (py_exc + 'a) \<times> nat) \<Rightarrow> 'a prog" where
  "fallible f n = Some (f n)"

definition andthen :: "'a prog \<Rightarrow> ('a \<Rightarrow> 'b prog) \<Rightarrow> 'b prog" where
  "andthen m f n =
     (case m n of
        None \<Rightarrow> None
      | Some (Inl e, n') \<Rightarrow> Some (Inl e, n')
      | Some (Inr x, n') \<Rightarrow> f x n')"

text \<open>
  \<^verbatim>\<open>for x in v: body\<close>, where the body updates the \<^verbatim>\<open>dict\<close> \<open>x\<close> in place: \<open>body x\<close> is \<open>x\<close>
  after the body. The values decoded from one text share no object, so the update of an
  element of a list is seen in the list and nowhere else. The elements that a string or a
  \<^verbatim>\<open>dict\<close> hands to the loop are strings, which nothing updates.
\<close>

fun for_each :: "(json \<Rightarrow> json prog) \<Rightarrow> json list \<Rightarrow> json list prog" where
  "for_each body [] = ret []"
| "for_each body (x # xs) =
     andthen (body x) (\<lambda>y. andthen (for_each body xs) (\<lambda>ys. ret (y # ys)))"

definition for_in :: "(json \<Rightarrow> json prog) \<Rightarrow> json \<Rightarrow> json prog" where
  "for_in body v =
     (case v of
        JArray xs \<Rightarrow> andthen (for_each body xs) (\<lambda>ys. ret (JArray ys))
      | _ \<Rightarrow> andthen (pure (py_iter v)) (\<lambda>xs. andthen (for_each body xs) (\<lambda>ys. ret v)))"

text \<open>\<^verbatim>\<open>d[k] = translate_text(d.get(k, ""), language)\<close>\<close>

definition translate_field :: "env \<Rightarrow> string \<Rightarrow> string \<Rightarrow> json \<Rightarrow> json prog" where
  "translate_field E language k d =
     (case d of
        JObject kvs \<Rightarrow>
          andthen (total (translate_text E (dict_get kvs k (JString [])) language))
            (\<lambda>v. ret (JObject (dict_set kvs k v)))
      | _ \<Rightarrow> raise AttributeError)"

text \<open>\<^verbatim>\<open>d[k] = translate_list(d.get(k, []), language)\<close>\<close>

definition translate_list_field :: "env \<Rightarrow> string \<Rightarrow> string \<Rightarrow> json \<Rightarrow> json prog" where
  "translate_list_field E language k d =
     (case d of
        JObject kvs \<Rightarrow>
          andthen (fallible (translate_list E (dict_get kvs k (JArray [])) language))
            (\<lambda>vs. ret (JObject (dict_set kvs k (JArray vs))))
      | _ \<Rightarrow> raise AttributeError)"

text \<open>The body of \<^verbatim>\<open>for it in issues\<close>.\<close>

definition translate_issue :: "env \<Rightarrow> string \<Rightarrow> json \<Rightarrow> json prog" where
  "translate_issue E language it =
     andthen (translate_field E language ''name'' it) (\<lambda>it.
     andthen (translate_field E language ''type'' it) (\<lambda>it.
     andthen (translate_field E language ''severity'' it) (\<lambda>it.
     translate_list_field E language ''evidence'' it)))"

text \<open>
  The body of the loops over the chemical entries and over the fertilizer plan, and the
  body of the loops over the organic entries.
\<close>

definition translate_chemical :: "env \<Rightarrow> string \<Rightarrow> json \<Rightarrow> json prog" where
  "translate_chemical E language c =
     andthen (translate_field E language ''product'' c) (\<lambda>c.
     andthen (translate_field E language ''dose'' c) (\<lambda>c.
     translate_field E language ''notes'' c))"

definition translate_organic :: "env \<Rightarrow> string \<Rightarrow> json \<Rightarrow> json prog" where
  "translate_organic E language o' =
     andthen (translate_field E language ''method'' o') (\<lambda>o'.
     andthen (translate_field E language ''dose'' o') (\<lambda>o'.
     translate_field E language ''notes'' o'))"

text \<open>
  \<^verbatim>\<open>for c in (treatment.get(k) or []): body\<close>: the entries updated are those of the list
  under \<open>k\<close>, if there is a non-empty one; the result is \<open>treatment\<close> after the loop.
\<close>

definition translate_entries :: "(json \<Rightarrow> json prog) \<Rightarrow> string \<Rightarrow> json \<Rightarrow> json prog" where
  "translate_entries body k treatment =
     (case treatment of
        JObject kvs \<Rightarrow>
          (let entries = dict_get kvs k JNull in
           if truthy entries
           then andthen (for_in body entries) (\<lambda>entries. ret (JObject (dict_set kvs k entries)))
           else ret treatment)
      | _ \<Rightarrow> raise AttributeError)"

text \<open>
  \<^verbatim>\<open>x[:3]\<close>. On a \<^verbatim>\<open>dict\<close> the exception is a \<^verbatim>\<open>KeyError\<close> from Python 3.12 on; the handlers
  do not tell the two apart.
\<close>

definition py_slice3 :: "json \<Rightarrow> py_exc + json" where
  "py_slice3 x =
     (case x of
        JArray xs \<Rightarrow> Inr (JArray (take 3 xs))
      | JString s \<Rightarrow> Inr (JString (take 3 s))
      | _ \<Rightarrow> Inl TypeError)"

text \<open>\<^verbatim>\<open>sep.join(x)\<close>: every item has to be a string.\<close>

fun str_items :: "json list \<Rightarrow> py_exc + string list" where
  "str_items [] = Inr []"
| "str_items (JString s # xs) = ebind (str_items xs) (\<lambda>ss. Inr (s # ss))"
| "str_items (_ # xs) = Inl TypeError"

fun join :: "string \<Rightarrow> string list \<Rightarrow> string" where
  "join sep [] = []"
| "join sep [s] = s"
| "join sep (s # t # ts) = s @ sep @ join sep (t # ts)"

definition py_join :: "string \<Rightarrow> json \<Rightarrow> py_exc + string" where
  "py_join sep x = ebind (py_iter x) (\<lambda>xs. ebind (str_items xs) (\<lambda>ss. Inr (join sep ss)))"

text \<open>\<^verbatim>\<open>x[k]\<close> for a string \<open>k\<close>.\<close>

definition py_item :: "json \<Rightarrow> string \<Rightarrow> py_exc + json" where
  "py_item x k =
     (case x of
        JObject kvs \<Rightarrow> (case map_of kvs k of Some v \<Rightarrow> Inr v | None \<Rightarrow> Inl KeyError)
      | _ \<Rightarrow> Inl TypeError)"

subsection \<open>The endpoints\<close>

definition PLANT_PROMPT :: string where
  \<open>PLANT_PROMPT =
     [CHR 0x0A] @ concat (map (\<lambda>l. l @ [CHR 0x0A])
       [''You are an agricultural plant pathologist.'',
        ''Analyze this plant/crop image and return STRICT JSON only (no extra text) in this schema:'',
        ''{'',
        ''  "plant": { "common_name": "", "scientific_name": "", "growth_stage": "" },'',
        ''  "health": { "score": 0, "observations": [""] },'',
        ''  "issues": ['',
        ''    { "name": "", "type": "disease|pest|deficiency", "severity": "mild|moderate|severe", "evidence": [""] }'',
        ''  ],'',
        ''  "treatment": {'',
        ''    "chemical": [ { "product": "", "dose": "", "notes": "" } ],'',
        ''    "organic":  [ { "method": "", "dose": "", "notes": "" } ]'',
        ''  },'',
        ''  "prevention": ["short actionable tips"]'',
        ''}'',
        ''Be exact and specific. If uncertain, leave fields empty or omit entries. Do not fabricate.''])\<close>

definition SOIL_PROMPT :: string where
  \<open>SOIL_PROMPT =
     [CHR 0x0A] @ concat (map (\<lambda>l. l @ [CHR 0x0A])
       [''You are a soil scientist.'',
        ''Analyze this soil image and return STRICT JSON only (no extra text) in this schema:'',
        ''{'',
        ''  "soil": { "type": "", "color": "", "texture": "", "structure": "" },'',
        ''  "health": { "ph_estimate": "range like 6.5-7.0", "organic_matter": "low|medium|high", "moisture": "low|medium|high" },'',
        ''  "nutrients": { "nitrogen": "", "phosphorus": "", "potassium": "", "micronutrients": ["optional"] },'',
        ''  "suitable_crops": ["", ""],'',
        ''  "recommendations": ["short actionable tips"],'',
        ''  "fertilizer_plan": [ { "product": "", "dose": "", "notes": "" } ]'',
        ''}'',
        ''Be factual. Do not fabricate if image doesn't support an estimate.''])\<close>

definition PEST_PROMPT :: string where
  \<open>PEST_PROMPT =
     [CHR 0x0A] @ concat (map (\<lambda>l. l @ [CHR 0x0A])
       [''You are an entomologist/plant protection expert.'',
        ''Analyze this pest image and return STRICT JSON only (no extra text) in this schema:'',
        ''{'',
        ''  "pest": { "common_name": "", "scientific_name": "", "life_stage": "", "size_estimate": "" },'',
        ''  "damage": { "severity": 0, "pattern": "", "affected_parts": [""] },'',
        ''  "hosts": { "primary": ["", ""], "secondary": [""] },'',
        ''  "control": {'',
        ''    "chemical": [ { "product": "", "dose": "", "notes": "" } ],'',
        ''    "organic":  [ { "method": "", "dose": "", "notes": "" } ]'',
        ''  },'',
        ''  "prevention": ["short actionable tips"]'',
        ''}'',
        ''Be exact and practical. Do not make up unknowns.''])\<close>




definition open_image :: "env \<Rightarrow> string \<Rightarrow> image prog" where
  "open_image E file = (case pil_open E file of None \<Rightarrow> raise OSError | Some img \<Rightarrow> ret img)"

text \<open>
  \<open>ask_gemini_json\<close> hands the decoded data to the endpoint. The endpoints are modelled on
  data within code point 255; on other data the run leaves the model.
\<close>

definition ask_gemini_json :: "env \<Rightarrow> string \<Rightarrow> image \<Rightarrow> json prog" where
  "ask_gemini_json E prompt img n =
     (case generate_content E n (ImagePrompt prompt img) of
        Returns t \<Rightarrow>
          (case narrow (safe_json_parse (text_or_empty t)) of
             None \<Rightarrow> None
           | Some parsed \<Rightarrow> Some (Inr parsed, n + 1))
      | Raises \<Rightarrow> Some (Inl ProviderError, n + 1))"

text \<open>
  The handlers of the analysis endpoints: an \<^verbatim>\<open>HTTPException\<close> is raised again, any other
  exception becomes the error 500 of the endpoint.
\<close>

definition reraise :: "string \<Rightarrow> json prog \<Rightarrow> json prog" where
  "reraise detail body n =
     (case body n of
        None \<Rightarrow> None
      | Some (Inr payload, n') \<Rightarrow> Some (Inr payload, n')
      | Some (Inl (HTTPException status d), n') \<Rightarrow> Some (Inl (HTTPException status d), n')
      | Some (Inl e, n') \<Rightarrow> Some (Inl (HTTPException 500 detail), n'))"

text \<open>\<^verbatim>\<open>not data or key not in data\<close>\<close>

definition not_extracted :: "string \<Rightarrow> json \<Rightarrow> py_exc + bool" where
  "not_extracted key data =
     (if \<not> truthy data then Inr True else ebind (py_contains key data) (\<lambda>b. Inr (\<not> b)))"

definition analyze_plant_body :: "env \<Rightarrow> string \<Rightarrow> string \<Rightarrow> json prog" where
  "analyze_plant_body E file language =
     andthen (open_image E file) (\<lambda>img.
     andthen (ask_gemini_json E PLANT_PROMPT img) (\<lambda>data.
     andthen (pure (not_extracted ''plant'' data)) (\<lambda>failed.
     if failed
     then raise (HTTPException 422 ''AI could not extract plant details. Try a clearer image.'')
     else
     andthen (pure (py_get data ''plant'' (JObject []))) (\<lambda>plant.
     andthen (pure (py_get data ''health'' (JObject []))) (\<lambda>health.
     andthen (pure (py_get data ''issues'' (JArray []))) (\<lambda>issues.
     andthen (pure (py_get data ''treatment'' (JObject []))) (\<lambda>treatment.
     andthen (pure (py_get data ''prevention'' (JArray []))) (\<lambda>prevention.
     andthen (pure (py_get plant ''common_name'' JNull)) (\<lambda>c.
     let common = py_or c (JString ''Unknown plant'') in
     andthen (pure (py_get plant ''scientific_name'' JNull)) (\<lambda>s.
     let sci = py_or s (JString []) in
     andthen (pure (py_get health ''score'' (JInt 0))) (\<lambda>score.
     andthen (pure (if truthy issues
                    then ebind (py_index0 issues) (\<lambda>i. py_get i ''name'' JNull)
                    else Inr (JString []))) (\<lambda>i.
     let first_issue = py_or i (JString []) in
     andthen (pure (ebind (py_get treatment ''chemical'' JNull) (\<lambda>ch.
                    ebind (py_index0 (py_or ch (JArray [JObject []]))) (\<lambda>c0.
                    py_get c0 ''product'' JNull)))) (\<lambda>p.
     let first_chem = py_or p (JString []);
         str = py_str (py_repr E);
         summary_en = ''Identified: '' @ str common
                      @ (if truthy sci then '' ('' @ str sci @ '')'' else [])
                      @ ''. Health score: '' @ str score @ ''/100.'';
         summary_en = (if truthy first_issue
                       then summary_en @ '' Primary issue: '' @ str first_issue @ ''.''
                       else summary_en);
         summary_en = (if truthy first_chem
                       then summary_en @ '' Recommended treatment: '' @ str first_chem @ ''.''
                       else summary_en)
     in
     andthen (pure (get_medicine_link (py_or first_chem (py_or first_issue common)))) (\<lambda>buy_url.
     andthen (total (translate_text E (JString summary_en) language)) (\<lambda>summary.
     andthen (for_in (translate_issue E language) issues) (\<lambda>issues.
     andthen (translate_entries (translate_chemical E language) ''chemical'' treatment) (\<lambda>treatment.
     andthen (translate_entries (translate_organic E language) ''organic'' treatment) (\<lambda>treatment.
     andthen (fallible (translate_list E prevention language)) (\<lambda>prevention.
     ret (JObject [(''success'', JBool True),
                   (''plant'', plant),
                   (''health'', health),
                   (''issues'', issues),
                   (''treatment'', treatment),
                   (''prevention'', JArray prevention),
                   (''summary'', summary),
                   (''medicine_links'', JObject [(''url'', JString buy_url)])])
     )))))))))))))))))))"

definition analyze_plant :: "env \<Rightarrow> string \<Rightarrow> string \<Rightarrow> json prog" where
  "analyze_plant E file language =
     reraise ''Failed to analyze plant image.'' (analyze_plant_body E file language)"

definition analyze_soil_body :: "env \<Rightarrow> string \<Rightarrow> string \<Rightarrow> json prog" where
  "analyze_soil_body E file language =
     andthen (open_image E file) (\<lambda>img.
     andthen (ask_gemini_json E SOIL_PROMPT img) (\<lambda>data.
     andthen (pure (not_extracted ''soil'' data)) (\<lambda>failed.
     if failed
     then raise (HTTPException 422 ''AI could not extract soil details. Try a clearer image.'')
     else
     andthen (pure (py_get data ''soil'' (JObject []))) (\<lambda>soil.
     andthen (pure (py_get data ''health'' (JObject []))) (\<lambda>health.
     andthen (pure (py_get data ''nutrients'' (JObject []))) (\<lambda>nutrients.
     andthen (pure (py_get data ''suitable_crops'' (JArray []))) (\<lambda>suitable_crops.
     andthen (pure (py_get data ''recommendations'' (JArray []))) (\<lambda>recommendations.
     andthen (pure (py_get data ''fertilizer_plan'' (JArray []))) (\<lambda>fertilizer_plan.
     andthen (pure (py_get soil ''type'' (JString ''Soil''))) (\<lambda>soil_type.
     andthen (pure (py_get health ''ph_estimate'' (JString []))) (\<lambda>ph.
     andthen (pure (py_get health ''organic_matter'' (JString []))) (\<lambda>om.
     andthen (pure (if truthy suitable_crops
                    then ebind (py_slice3 suitable_crops) (py_join '', '')
                    else Inr ''N/A'')) (\<lambda>crops.
     let str = py_str (py_repr E);
         summary_en = str soil_type @ '' detected. pH: '' @ str (py_or ph (JString ''N/A''))
                      @ '', Organic matter: '' @ str (py_or om (JString ''N/A''))
                      @ ''. Recommended crops: '' @ crops @ ''.''
     in
     andthen (total (translate_text E (JString summary_en) language)) (\<lambda>summary.
     andthen (fallible (translate_list E suitable_crops language)) (\<lambda>suitable_crops.
     andthen (fallible (translate_list E recommendations language)) (\<lambda>recommendations.
     andthen (for_in (translate_chemical E language) fertilizer_plan) (\<lambda>fertilizer_plan.
     andthen (pure (if truthy fertilizer_plan
                    then ebind (py_index0 fertilizer_plan) (\<lambda>f. py_item f ''product'')
                    else Inr (JString []))) (\<lambda>p.
     let first_fert = py_or p (JString ''fertilizer'') in
     andthen (pure (get_medicine_link first_fert)) (\<lambda>buy_url.
     ret (JObject [(''success'', JBool True),
                   (''soil'', soil),
                   (''health'', health),
                   (''nutrients'', nutrients),
                   (''suitable_crops'', JArray suitable_crops),
                   (''recommendations'', JArray recommendations),
                   (''fertilizer_plan'', fertilizer_plan),
                   (''summary'', summary),
                   (''medicine_links'', JObject [(''url'', JString buy_url)])])
     )))))))))))))))))))"

definition analyze_soil :: "env \<Rightarrow> string \<Rightarrow> string \<Rightarrow> json prog" where
  "analyze_soil E file language =
     reraise ''Failed to analyze soil image.'' (analyze_soil_body E file language)"

definition analyze_pest_body :: "env \<Rightarrow> string \<Rightarrow> string \<Rightarrow> json prog" where
  "analyze_pest_body E file language =
     andthen (open_image E file) (\<lambda>img.
     andthen (ask_gemini_json E PEST_PROMPT img) (\<lambda>data.
     andthen (pure (not_extracted ''pest'' data)) (\<lambda>failed.
     if failed
     then raise (HTTPException 422 ''AI could not extract pest details. Try a clearer image.'')
     else
     andthen (pure (py_get data ''pest'' (JObject []))) (\<lambda>pest.
     andthen (pure (py_get data ''damage'' (JObject []))) (\<lambda>damage.
     andthen (pure (py_get data ''hosts'' (JObject []))) (\<lambda>hosts.
     andthen (pure (py_get data ''control'' (JObject []))) (\<lambda>control.
     andthen (pure (py_get data ''prevention'' (JArray []))) (\<lambda>prevention.
     andthen (pure (py_get pest ''common_name'' (JString ''Pest''))) (\<lambda>cname.
     andthen (pure (py_get damage ''severity'' (JInt 0))) (\<lambda>sev.
     andthen (pure (ebind (py_get control ''chemical'' JNull) (\<lambda>ch.
                    ebind (py_index0 (py_or ch (JArray [JObject []]))) (\<lambda>c0.
                    py_get c0 ''product'' (JString []))))) (\<lambda>chem_first.
     let str = py_str (py_repr E);
         summary_en = str cname @ '' detected. Damage severity: '' @ str sev
                      @ ''%. Recommended treatment: ''
                      @ str (py_or chem_first (JString ''See control measures'')) @ ''.''
     in
     andthen (total (translate_text E (JString summary_en) language)) (\<lambda>summary.
     andthen (translate_entries (translate_chemical E language) ''chemical'' control) (\<lambda>control.
     andthen (translate_entries (translate_organic E language) ''organic'' control) (\<lambda>control.
     andthen (fallible (translate_list E prevention language)) (\<lambda>prevention.
     andthen (pure (get_medicine_link (py_or chem_first cname))) (\<lambda>buy_url.
     ret (JObject [(''success'', JBool True),
                   (''pest'', pest),
                   (''damage'', damage),
                   (''hosts'', hosts),
                   (''control'', control),
                   (''prevention'', JArray prevention),
                   (''summary'', summary),
                   (''medicine_links'', JObject [(''url'', JString buy_url)])])
     ))))))))))))))))"

definition analyze_pest :: "env \<Rightarrow> string \<Rightarrow> string \<Rightarrow> json prog" where
  "analyze_pest E file language =
     reraise ''Failed to analyze pest image.'' (analyze_pest_body E file language)"

section \<open>Properties\<close>

text \<open>
  An environment for examples: the provider answers every request with \<open>r\<close>, every
  upload decodes to itself.
\<close>

definition const_env :: "response \<Rightarrow> env" where
  "const_env r =
     \<lparr>generate_content = (\<lambda>n req. r), pil_open = (\<lambda>b. Some b), py_repr = (\<lambda>j. [])\<rparr>"


subsection \<open>The medicine link\<close>

lemma first_match_split:
  "tbl = pre @ (key, url) # post \<Longrightarrow> is_substring key t
   \<Longrightarrow> \<forall>kv \<in> set pre. \<not> is_substring (fst kv) t
   \<Longrightarrow> first_match tbl t = url"
  by (induction pre arbitrary: tbl) auto

lemma first_match_none:
  "\<forall>kv \<in> set tbl. \<not> is_substring (fst kv) t \<Longrightarrow> first_match tbl t = fallback_url"
  by (induction tbl) auto

text \<open>
  Claim C4. \<open>get_medicine_link\<close> lower-cases its argument and walks the fixed keyword
  table in order: the first listed keyword that occurs in the lower-cased text decides
  the URL, whatever keywords follow it; when no keyword occurs the generic fallback URL
  is returned; two texts with the same lower-case form get the same link. The two
  examples of the specification evaluate as stated.
\<close>

theorem get_medicine_link_first_listed:
  "(mapping = pre @ (key, url) # post \<and> is_substring key (py_lower s)
      \<and> (\<forall>kv \<in> set pre. \<not> is_substring (fst kv) (py_lower s))
      \<longrightarrow> get_medicine_link (JString s) = Inr url)
   \<and> ((\<forall>kv \<in> set mapping. \<not> is_substring (fst kv) (py_lower s))
      \<longrightarrow> get_medicine_link (JString s) = Inr fallback_url)
   \<and> (py_lower s = py_lower t
      \<longrightarrow> get_medicine_link (JString s) = get_medicine_link (JString t))
   \<and> get_medicine_link (JString ''Apply Mancozeb 75 WP'')
       = Inr ''https://www.bighaat.com/products/indofil-m-45-mancozeb-75-wp-500-gm''
   \<and> get_medicine_link (JString ''unknown substance'') = Inr fallback_url"
proof (intro conjI impI)
  assume "mapping = pre @ (key, url) # post \<and> is_substring key (py_lower s)
      \<and> (\<forall>kv \<in> set pre. \<not> is_substring (fst kv) (py_lower s))"
  then have "first_match mapping (py_lower s) = url"
    using first_match_split [of mapping pre key url post "py_lower s"] by blast
  then show "get_medicine_link (JString s) = Inr url"
    by (cases "s = []")
       (simp_all add: get_medicine_link_def py_or_def truthy_def py_lower_def)
next
  assume "\<forall>kv \<in> set mapping. \<not> is_substring (fst kv) (py_lower s)"
  then have "first_match mapping (py_lower s) = fallback_url"
    by (rule first_match_none)
  then show "get_medicine_link (JString s) = Inr fallback_url"
    by (cases "s = []")
       (simp_all add: get_medicine_link_def py_or_def truthy_def py_lower_def)
next
  assume "py_lower s = py_lower t"
  moreover have "get_medicine_link (JString u) = Inr (first_match mapping (py_lower u))" for u
    by (cases "u = []")
       (simp_all add: get_medicine_link_def py_or_def truthy_def py_lower_def)
  ultimately show "get_medicine_link (JString s) = get_medicine_link (JString t)"
    by simp
next
  show "get_medicine_link (JString ''Apply Mancozeb 75 WP'')
       = Inr ''https://www.bighaat.com/products/indofil-m-45-mancozeb-75-wp-500-gm''"
    by code_simp
next
  show "get_medicine_link (JString ''unknown substance'') = Inr fallback_url"
    by code_simp
qed

theorem get_medicine_link_first_listed_witness:
  "get_medicine_link (JString ''NEEM cake with Urea'')
     = Inr ''https://www.bighaat.com/products/neem-oil-azadirachtin-300-ppm''
   \<and> get_medicine_link (JString ''Compost'') = Inr fallback_url
   \<and> get_medicine_link (JString ''SULPHUR'') = get_medicine_link (JString ''sulphur'')"
proof -
  have a: "mapping = take 9 mapping @ (''neem'', ''https://www.bighaat.com/products/neem-oil-azadirachtin-300-ppm'') # drop 10 mapping
     \<and> is_substring ''neem'' (py_lower ''NEEM cake with Urea'')
     \<and> (\<forall>kv \<in> set (take 9 mapping). \<not> is_substring (fst kv) (py_lower ''NEEM cake with Urea''))"
    by code_simp
  have b: "\<forall>kv \<in> set mapping. \<not> is_substring (fst kv) (py_lower ''Compost'')"
    by code_simp
  have c: "py_lower ''SULPHUR'' = py_lower ''sulphur''"
    by code_simp
  show ?thesis
    using get_medicine_link_first_listed [of "take 9 mapping" "''neem''"
        "''https://www.bighaat.com/products/neem-oil-azadirachtin-300-ppm''" "drop 10 mapping"
        "''NEEM cake with Urea''"] a
      get_medicine_link_first_listed [of _ _ _ _ "''Compost''"] b
      get_medicine_link_first_listed [of _ _ _ _ "''SULPHUR''" "''sulphur''"] c
    by blast
qed

subsection \<open>The field translator\<close>

text \<open>
  Claim C7. When the text is falsy (empty, \<^verbatim>\<open>None\<close>, zero) or the target language is
  \<^verbatim>\<open>en\<close>, \<open>translate_text\<close> returns its argument unchanged, whatever the provider
  would answer, and the number of calls issued stays as it was. In particular
  \<^verbatim>\<open>translate_text("Hello", "en")\<close> is \<^verbatim>\<open>"Hello"\<close>.
\<close>

theorem translate_text_passthrough:
  "(\<not> truthy text \<or> target_lang = ''en'' \<longrightarrow> translate_text E text target_lang n = (text, n))
   \<and> translate_text E (JString ''Hello'') ''en'' n = (JString ''Hello'', n)"
  by (simp add: translate_text_def)

theorem translate_text_passthrough_witness:
  "translate_text (const_env Raises) (JString []) ''hi'' 3 = (JString [], 3)
   \<and> translate_text (const_env Raises) (JInt 5) ''en'' 3 = (JInt 5, 3)"
  using translate_text_passthrough [of "JString []" "''hi''" "const_env Raises" 3]
    translate_text_passthrough [of "JInt 5" "''en''" "const_env Raises" 3]
  by (simp add: truthy_def)

lemma translate_each_length: "length (fst (translate_each E xs lang n)) = length xs"
  by (induction xs arbitrary: n) (simp_all add: split_def Let_def)

lemma translate_each_nth:
  "i < length xs \<Longrightarrow>
   fst (translate_each E xs lang n) ! i =
     fst (translate_text E (xs ! i) lang (snd (translate_each E (take i xs) lang n)))"
proof (induction xs arbitrary: n i)
  case Nil
  then show ?case by simp
next
  case (Cons x xs)
  show ?case
  proof (cases i)
    case 0
    then show ?thesis by (simp add: split_def Let_def)
  next
    case (Suc j)
    with Cons.prems have "j < length xs" by simp
    from Cons.IH [OF this] Suc show ?thesis
      by (simp add: split_def Let_def)
  qed
qed

text \<open>
  Claim C10. On a list \<open>translate_list\<close> does not raise and returns a list of the same
  length; its \<open>i\<close>-th element is \<open>translate_text\<close> applied to the \<open>i\<close>-th input element,
  run after the calls that the elements before it issued. On a falsy argument
  (\<^verbatim>\<open>None\<close> among them) it returns the empty list, issues no call and does not raise.
\<close>

theorem translate_list_elementwise:
  "(\<exists>ys n'. translate_list E (JArray xs) lang n = (Inr ys, n')
       \<and> length ys = length xs
       \<and> (\<forall>i < length xs.
            ys ! i = fst (translate_text E (xs ! i) lang
                           (snd (translate_each E (take i xs) lang n)))))
   \<and> (\<not> truthy items \<longrightarrow> translate_list E items lang n = (Inr [], n))"
proof (intro conjI impI)
  have "translate_list E (JArray xs) lang n
          = (Inr (fst (translate_each E xs lang n)), snd (translate_each E xs lang n))"
    by (cases "xs = []")
       (simp_all add: translate_list_def py_or_def truthy_def py_iter_def split_def Let_def)
  then show "\<exists>ys n'. translate_list E (JArray xs) lang n = (Inr ys, n')
       \<and> length ys = length xs
       \<and> (\<forall>i < length xs.
            ys ! i = fst (translate_text E (xs ! i) lang
                           (snd (translate_each E (take i xs) lang n))))"
    using translate_each_length [of E xs lang n] translate_each_nth [of _ xs E lang n]
    by simp
next
  assume "\<not> truthy items"
  then show "translate_list E items lang n = (Inr [], n)"
    by (simp add: translate_list_def py_or_def py_iter_def)
qed

theorem translate_list_elementwise_witness:
  "(\<exists>ys n'. translate_list (const_env (Returns (Some ''ok''))) (JArray [JString ''a'', JString ''b''])
        ''hi'' 0 = (Inr ys, n')
      \<and> length ys = 2 \<and> ys ! 0 = JString ''ok'' \<and> ys ! 1 = JString ''ok'')
   \<and> translate_list (const_env (Returns (Some ''ok''))) (JInt 0) ''hi'' 0 = (Inr [], 0)"
proof -
  let ?E = "const_env (Returns (Some ''ok''))"
  let ?xs = "[JString ''a'', JString ''b'']"
  have t: "fst (translate_text ?E (JString [c]) ''hi'' k) = JString ''ok''" for c k
    by (simp add: translate_text_def truthy_def const_env_def text_or_empty_def
          py_strip_def py_isspace_def)
  from translate_list_elementwise [of ?E ?xs "''hi''" 0 "JInt 0"]
  obtain ys n' where r: "translate_list ?E (JArray ?xs) ''hi'' 0 = (Inr ys, n')"
    and l: "length ys = length ?xs"
    and e: "\<forall>i < length ?xs. ys ! i =
              fst (translate_text ?E (?xs ! i) ''hi'' (snd (translate_each ?E (take i ?xs) ''hi'' 0)))"
    and z: "translate_list ?E (JInt 0) ''hi'' 0 = (Inr [], 0)"
    by (auto simp: truthy_def)
  from e have "ys ! 0 = JString ''ok''" and "ys ! 1 = JString ''ok''"
    using t by (simp_all add: All_less_Suc)
  with r l z show ?thesis by simp
qed

text \<open>
  Claim C3, as stated, fails for the empty response: \<^verbatim>\<open>(resp.text or "").strip()\<close> is
  returned, so an empty answer of the provider gives the empty string, not the input.
\<close>

theorem translate_text_empty_response_counterexample:
  "fst (translate_text (const_env (Returns (Some []))) (JString ''Hello'') ''hi'' 0)
     \<noteq> JString ''Hello''"
  by (simp add: translate_text_def truthy_def const_env_def text_or_empty_def py_strip_def)

text \<open>
  Claim C3, amended. For a truthy text and a target language other than \<^verbatim>\<open>en\<close>: when
  the call to the provider raises, \<open>translate_text\<close> returns the input unchanged (one call
  issued, nothing propagates); when the call returns a response whose text is
  \<^verbatim>\<open>None\<close>, empty or white space only, it returns the empty string.
\<close>

theorem translate_text_failure:
  "truthy text \<and> target_lang \<noteq> ''en'' \<longrightarrow>
     (generate_content E n
          (TextPrompt (translate_prompt (lang_name target_lang) (py_str (py_repr E) text)))
        = Raises
      \<longrightarrow> translate_text E text target_lang n = (text, n + 1))
     \<and> (generate_content E n
          (TextPrompt (translate_prompt (lang_name target_lang) (py_str (py_repr E) text)))
        = Returns t \<and> py_strip (text_or_empty t) = []
      \<longrightarrow> translate_text E text target_lang n = (JString [], n + 1))"
  by (simp add: translate_text_def)

theorem translate_text_failure_witness:
  "translate_text (const_env Raises) (JString ''Hello'') ''hi'' 0 = (JString ''Hello'', 1)
   \<and> translate_text (const_env (Returns None)) (JString ''Hello'') ''hi'' 0 = (JString [], 1)"
  using translate_text_failure [of "JString ''Hello''" "''hi''" "const_env Raises" 0]
    translate_text_failure [of "JString ''Hello''" "''hi''" "const_env (Returns None)" 0 None]
  by (simp add: truthy_def const_env_def text_or_empty_def py_strip_def)

subsection \<open>The JSON decoder\<close>

text \<open>
  Escapes above code point 255 are decoded, surrogate pairs are joined, and a later
  duplicate of a key replaces the earlier value. The texts are \<^verbatim>\<open>"\u091f"\<close>,
  \<^verbatim>\<open>"\ud83d\ude00"\<close>, \<^verbatim>\<open>"\u00e9"\<close> and \<^verbatim>\<open>{"a":"\u0915","a":1}\<close>.
\<close>

lemma json_loads_unicode_escapes:
  \<open>json_loads (CHR 0x22 # CHR 0x5C # ''u091f"'') = Inr (UString [0x91F])
   \<and> json_loads (CHR 0x22 # CHR 0x5C # ''ud83d'' @ CHR 0x5C # ''ude00"'') = Inr (UString [0x1F600])
   \<and> json_loads (CHR 0x22 # CHR 0x5C # ''u00e9"'') = Inr (UString [0xE9])
   \<and> json_loads (''{"a":"'' @ CHR 0x5C # ''u0915","a":1}'') = Inr (UObject [(codes ''a'', UInt 1)])\<close>
  by code_simp

lemma narrow_examples:
  "narrow (UString [0x91F]) = None
   \<and> narrow (UString [0xE9]) = Some (JString [CHR 0xE9])
   \<and> narrow (UObject [(codes ''a'', UArray [UInt 1, UString (codes ''b'')])])
       = Some (JObject [(''a'', JArray [JInt 1, JString ''b''])])"
  by code_simp

subsection \<open>The JSON extractor\<close>

lemma last_brace_span:
  "CHR ''}'' \<notin> set post \<Longrightarrow>
   rev (dropWhile (\<lambda>c. c \<noteq> CHR ''}'') (rev (mid @ CHR ''}'' # post))) = mid @ [CHR ''}'']"
  by (simp add: dropWhile_append)

lemma re_search_braces_decomp:
  "CHR ''{'' \<notin> set pre \<Longrightarrow> CHR ''}'' \<notin> set post \<Longrightarrow>
   re_search_braces (pre @ CHR ''{'' # mid @ CHR ''}'' # post) = Some (CHR ''{'' # mid @ [CHR ''}''])"
  using last_brace_span [of post mid]
  by (simp add: re_search_braces_def dropWhile_append)

lemma re_search_braces_Some:
  assumes "re_search_braces text = Some m"
  shows "\<exists>pre mid post. text = pre @ CHR ''{'' # mid @ CHR ''}'' # post
           \<and> CHR ''{'' \<notin> set pre \<and> CHR ''}'' \<notin> set post \<and> m = CHR ''{'' # mid @ [CHR ''}'']"
proof -
  define pre where "pre = takeWhile (\<lambda>c. c \<noteq> CHR ''{'') text"
  from assms obtain b rest where d: "dropWhile (\<lambda>c. c \<noteq> CHR ''{'') text = b # rest"
    and mem: "CHR ''}'' \<in> set rest"
    and m: "m = b # rev (dropWhile (\<lambda>c. c \<noteq> CHR ''}'') (rev rest))"
    by (auto simp: re_search_braces_def split: list.splits if_splits)
  from d have b: "b = CHR ''{''"
    using hd_dropWhile [of "\<lambda>c. c \<noteq> CHR ''{''" "text"] by (metis list.distinct(1) list.sel(1))
  have t: "text = pre @ b # rest"
    unfolding pre_def using takeWhile_dropWhile_id [of "\<lambda>c. c \<noteq> CHR ''{''" "text"] d by simp
  have p: "CHR ''{'' \<notin> set pre"
    unfolding pre_def by (auto dest: set_takeWhileD)
  from mem obtain mid post where r: "rest = mid @ CHR ''}'' # post" and q: "CHR ''}'' \<notin> set post"
    by (auto dest: split_list_last)
  from m r last_brace_span [OF q, of mid] have "m = b # mid @ [CHR ''}'']" by simp
  with t b p q r show ?thesis by auto
qed

text \<open>
  Claim C1, amended. The regular expression matches exactly when the text has a
  \<^verbatim>\<open>{\<close> with a \<^verbatim>\<open>}\<close> somewhere behind it, and the match runs from the first \<^verbatim>\<open>{\<close> to the
  last \<^verbatim>\<open>}\<close>. When there is a match, \<open>safe_json_parse\<close> returns what the match decodes
  to, or the empty mapping when it does not decode: the whole text is not tried then.
  When there is no match and the whole text does not decode, the result is the empty
  mapping. The example of the specification evaluates to the mapping of \<^verbatim>\<open>a\<close> to 1.
\<close>

theorem safe_json_parse_span:
  \<open>(re_search_braces text = Some m \<longleftrightarrow>
      (\<exists>pre mid post. text = pre @ CHR ''{'' # mid @ CHR ''}'' # post
          \<and> CHR ''{'' \<notin> set pre \<and> CHR ''}'' \<notin> set post \<and> m = CHR ''{'' # mid @ [CHR ''}'']))
   \<and> (re_search_braces text = Some m \<longrightarrow>
        safe_json_parse text = (case json_loads m of Inr v \<Rightarrow> v | Inl e \<Rightarrow> UObject []))
   \<and> (re_search_braces text = None \<and> json_loads text = Inl e \<longrightarrow>
        safe_json_parse text = UObject [])
   \<and> safe_json_parse ''Here is data: {"a":1} thanks'' = UObject [(codes ''a'', UInt 1)]\<close>
proof (intro conjI impI iffI)
  assume "re_search_braces text = Some m"
  then show "\<exists>pre mid post. text = pre @ CHR ''{'' # mid @ CHR ''}'' # post
          \<and> CHR ''{'' \<notin> set pre \<and> CHR ''}'' \<notin> set post \<and> m = CHR ''{'' # mid @ [CHR ''}'']"
    by (rule re_search_braces_Some)
next
  assume "\<exists>pre mid post. text = pre @ CHR ''{'' # mid @ CHR ''}'' # post
          \<and> CHR ''{'' \<notin> set pre \<and> CHR ''}'' \<notin> set post \<and> m = CHR ''{'' # mid @ [CHR ''}'']"
  then show "re_search_braces text = Some m"
    using re_search_braces_decomp by blast
next
  assume "re_search_braces text = Some m"
  then show "safe_json_parse text = (case json_loads m of Inr v \<Rightarrow> v | Inl e \<Rightarrow> UObject [])"
    by (simp add: safe_json_parse_def split: sum.splits)
next
  assume "re_search_braces text = None \<and> json_loads text = Inl e"
  then show "safe_json_parse text = UObject []"
    by (simp add: safe_json_parse_def)
next
  show \<open>safe_json_parse ''Here is data: {"a":1} thanks'' = UObject [(codes ''a'', UInt 1)]\<close>
    by code_simp
qed

theorem safe_json_parse_span_witness:
  "safe_json_parse ''say {x} twice {y} ok'' = UObject []
   \<and> safe_json_parse ''no json here'' = UObject []"
proof -
  have a: "re_search_braces ''say {x} twice {y} ok'' = Some ''{x} twice {y}''"
    by code_simp
  have b: "json_loads ''{x} twice {y}'' = Inl ValueError"
    by code_simp
  have c: "re_search_braces ''no json here'' = None \<and> json_loads ''no json here'' = Inl ValueError"
    by code_simp
  from safe_json_parse_span [of "''say {x} twice {y} ok''" "''{x} twice {y}''"] a b
    safe_json_parse_span [of "''no json here''" _ ValueError] c
  show ?thesis by simp
qed

text \<open>
  Claim C1, as stated, fails. On the text \<^verbatim>\<open>"{a}"\<close> (a JSON string) the span \<^verbatim>\<open>{a}\<close> does
  not decode while the whole text does, and the result is the empty mapping: there is no
  second attempt. On the text \<^verbatim>\<open>7\<close>, which has no brace, the result is the number 7 and
  not an empty mapping.
\<close>

theorem safe_json_parse_no_second_attempt_counterexample:
  \<open>re_search_braces ''"{a}"'' = Some ''{a}''
   \<and> json_loads ''{a}'' = Inl ValueError
   \<and> json_loads ''"{a}"'' = Inr (UString (codes ''{a}''))
   \<and> safe_json_parse ''"{a}"'' = UObject []
   \<and> CHR ''{'' \<notin> set ''7'' \<and> CHR ''}'' \<notin> set ''7''
   \<and> safe_json_parse ''7'' = UInt 7\<close>
  by code_simp

text \<open>
  Claim C6 does not hold of the code: \<open>safe_json_parse\<close> is annotated to return a
  \<^verbatim>\<open>Dict[str, Any]\<close>, but a text without braces that is valid JSON is decoded as a whole
  and returned as it is. On \<^verbatim>\<open>[1, 2]\<close> the result is a list.
\<close>

theorem safe_json_parse_returns_list:
  "safe_json_parse ''[1, 2]'' = UArray [UInt 1, UInt 2]"
  by code_simp

subsection \<open>The validation endpoint\<close>



subsection \<open>The analysis endpoints\<close>

text \<open>
  Claim C2 does not hold of the code. When the answer of the model is a JSON text that is
  not an object (the number \<^verbatim>\<open>7\<close>, \<^verbatim>\<open>true\<close>, the string \<^verbatim>\<open>"Not a plant."\<close>), the extractor
  returns the decoded value. It is truthy, so the test goes on to \<^verbatim>\<open>"plant" not in data\<close>,
  which raises a \<^verbatim>\<open>TypeError\<close> on a number or a truth value; on a string that has the key
  as a substring the test passes and \<^verbatim>\<open>data.get\<close> raises an \<^verbatim>\<open>AttributeError\<close>. The handler
  turns either into the error 500.
\<close>

theorem analyze_non_object_response_500:
  \<open>analyze_plant (const_env (Returns (Some ''7''))) ''leaf.jpg'' ''en'' 0
     = Some (Inl (HTTPException 500 ''Failed to analyze plant image.''), 1)
   \<and> analyze_soil (const_env (Returns (Some ''7''))) ''leaf.jpg'' ''en'' 0
     = Some (Inl (HTTPException 500 ''Failed to analyze soil image.''), 1)
   \<and> analyze_pest (const_env (Returns (Some ''7''))) ''leaf.jpg'' ''en'' 0
     = Some (Inl (HTTPException 500 ''Failed to analyze pest image.''), 1)
   \<and> analyze_plant (const_env (Returns (Some ''"Not a plant."''))) ''leaf.jpg'' ''en'' 0
     = Some (Inl (HTTPException 500 ''Failed to analyze plant image.''), 1)
   \<and> analyze_plant (const_env (Returns (Some ''true''))) ''leaf.jpg'' ''en'' 0
     = Some (Inl (HTTPException 500 ''Failed to analyze plant image.''), 1)\<close>
  by code_simp

text \<open>
  When the extracted data are a mapping without the root key, the empty mapping
  included, the endpoints answer 422 after the one call of the analysis: no translation
  call is issued.
\<close>

lemma not_extracted_dict:
  "not_extracted key (JObject kvs) = Inr (key \<notin> fst ` set kvs)"
  by (auto simp: not_extracted_def truthy_def py_contains_def ebind_def)

lemma analyze_rejects_without_root:
  assumes "pil_open E file = Some img"
    and "narrow (safe_json_parse (text_or_empty t)) = Some (JObject kvs)"
    and "key \<notin> fst ` set kvs"
  shows "(generate_content E n (ImagePrompt PLANT_PROMPT img) = Returns t \<and> key = ''plant'' \<longrightarrow>
            analyze_plant E file language n =
              Some (Inl (HTTPException 422 ''AI could not extract plant details. Try a clearer image.''), n + 1))
       \<and> (generate_content E n (ImagePrompt SOIL_PROMPT img) = Returns t \<and> key = ''soil'' \<longrightarrow>
            analyze_soil E file language n =
              Some (Inl (HTTPException 422 ''AI could not extract soil details. Try a clearer image.''), n + 1))
       \<and> (generate_content E n (ImagePrompt PEST_PROMPT img) = Returns t \<and> key = ''pest'' \<longrightarrow>
            analyze_pest E file language n =
              Some (Inl (HTTPException 422 ''AI could not extract pest details. Try a clearer image.''), n + 1))"
  using assms
  by (auto simp: analyze_plant_def analyze_plant_body_def analyze_soil_def analyze_soil_body_def
      analyze_pest_def analyze_pest_body_def reraise_def open_image_def ask_gemini_json_def
      andthen_def ret_def raise_def pure_def not_extracted_dict)


lemma str_int_80: "str_int 80 = ''80''"
  by code_simp

lemma tomato_parsed:
  \<open>narrow (safe_json_parse ''{"plant":{"common_name":"Tomato"},"health":{"score":80},"issues":[{"name":"Blight"}],"treatment":{"chemical":[{"product":"Mancozeb"}]}}'')
     = Some (JObject [(''plant'', JObject [(''common_name'', JString ''Tomato'')]),
                (''health'', JObject [(''score'', JInt 80)]),
                (''issues'', JArray [JObject [(''name'', JString ''Blight'')]]),
                (''treatment'', JObject [(''chemical'', JArray [JObject [(''product'', JString ''Mancozeb'')]])])])\<close>
  by code_simp

lemma mancozeb_link:
  "get_medicine_link (JString ''Mancozeb'')
     = Inr ''https://www.bighaat.com/products/indofil-m-45-mancozeb-75-wp-500-gm''"
  by code_simp

lemma translate_text_en: "translate_text E x ''en'' n = (x, n)"
  by (simp add: translate_text_def)

lemma translate_each_en: "translate_each E xs ''en'' n = (xs, n)"
  by (induction xs arbitrary: n) (simp_all add: translate_text_en)

text \<open>
  Claim C9. When the upload decodes and the model answers the plant prompt with the JSON
  text of the scenario, the plant endpoint with language \<^verbatim>\<open>en\<close> succeeds after that one
  call; the summary is the sentence below, which contains \<^verbatim>\<open>Tomato\<close>, \<^verbatim>\<open>80/100\<close>, \<^verbatim>\<open>Blight\<close>
  and \<^verbatim>\<open>Mancozeb\<close>; the medicine link is that of Mancozeb.
\<close>

theorem analyze_plant_tomato:
  assumes \<open>pil_open E file = Some img\<close>
    and \<open>generate_content E n (ImagePrompt PLANT_PROMPT img) = Returns (Some
          ''{"plant":{"common_name":"Tomato"},"health":{"score":80},"issues":[{"name":"Blight"}],"treatment":{"chemical":[{"product":"Mancozeb"}]}}'')\<close>
  shows \<open>\<exists>payload summary.
           analyze_plant E file ''en'' n = Some (Inr (JObject payload), n + 1)
         \<and> map_of payload ''success'' = Some (JBool True)
         \<and> map_of payload ''summary'' = Some (JString summary)
         \<and> summary = ''Identified: Tomato. Health score: 80/100. Primary issue: Blight. Recommended treatment: Mancozeb.''
         \<and> is_substring ''Tomato'' summary \<and> is_substring ''80/100'' summary
         \<and> is_substring ''Blight'' summary \<and> is_substring ''Mancozeb'' summary
         \<and> map_of payload ''medicine_links'' = Some (JObject [(''url'',
              JString ''https://www.bighaat.com/products/indofil-m-45-mancozeb-75-wp-500-gm'')])\<close>
proof -
  have sub: "is_substring ''Tomato'' ''Identified: Tomato. Health score: 80/100. Primary issue: Blight. Recommended treatment: Mancozeb.''
      \<and> is_substring ''80/100'' ''Identified: Tomato. Health score: 80/100. Primary issue: Blight. Recommended treatment: Mancozeb.''
      \<and> is_substring ''Blight'' ''Identified: Tomato. Health score: 80/100. Primary issue: Blight. Recommended treatment: Mancozeb.''
      \<and> is_substring ''Mancozeb'' ''Identified: Tomato. Health score: 80/100. Primary issue: Blight. Recommended treatment: Mancozeb.''"
    by code_simp
  have run: "analyze_plant E file ''en'' n =
     Some (Inr (JObject [(''success'', JBool True),
                   (''plant'', JObject [(''common_name'', JString ''Tomato'')]),
                   (''health'', JObject [(''score'', JInt 80)]),
                   (''issues'', JArray [JObject [(''name'', JString ''Blight''), (''type'', JString []),
                                                 (''severity'', JString []), (''evidence'', JArray [])]]),
                   (''treatment'', JObject [(''chemical'', JArray [JObject [(''product'', JString ''Mancozeb''),
                                              (''dose'', JString []), (''notes'', JString [])]])]),
                   (''prevention'', JArray []),
                   (''summary'', JString ''Identified: Tomato. Health score: 80/100. Primary issue: Blight. Recommended treatment: Mancozeb.''),
                   (''medicine_links'', JObject [(''url'',
                      JString ''https://www.bighaat.com/products/indofil-m-45-mancozeb-75-wp-500-gm'')])]), n + 1)"
    using assms
    by (simp add: analyze_plant_def analyze_plant_body_def reraise_def open_image_def
        ask_gemini_json_def text_or_empty_def tomato_parsed andthen_def ret_def raise_def pure_def
        total_def fallible_def not_extracted_def truthy_def py_contains_def ebind_def py_get_def
        dict_get_def py_or_def py_index0_def py_str_def str_int_80 mancozeb_link translate_text_en
        for_in_def translate_issue_def translate_field_def translate_list_field_def
        translate_list_def py_iter_def translate_each_en translate_entries_def
        translate_chemical_def translate_organic_def Let_def)
  show ?thesis
    unfolding run using sub by simp
qed

theorem analyze_plant_tomato_witness:
  \<open>\<exists>payload.
      analyze_plant (const_env (Returns (Some
          ''{"plant":{"common_name":"Tomato"},"health":{"score":80},"issues":[{"name":"Blight"}],"treatment":{"chemical":[{"product":"Mancozeb"}]}}'')))
        ''leaf.jpg'' ''en'' 0 = Some (Inr (JObject payload), 1)
    \<and> map_of payload ''summary'' = Some (JString
          ''Identified: Tomato. Health score: 80/100. Primary issue: Blight. Recommended treatment: Mancozeb.'')
    \<and> map_of payload ''medicine_links'' = Some (JObject [(''url'',
              JString ''https://www.bighaat.com/products/indofil-m-45-mancozeb-75-wp-500-gm'')])\<close>
proof -
  define E where \<open>E = const_env (Returns (Some
          ''{"plant":{"common_name":"Tomato"},"health":{"score":80},"issues":[{"name":"Blight"}],"treatment":{"chemical":[{"product":"Mancozeb"}]}}''))\<close>
  have a: "pil_open E ''leaf.jpg'' = Some ''leaf.jpg''"
    by (simp add: E_def const_env_def)
  have b: \<open>generate_content E 0 (ImagePrompt PLANT_PROMPT ''leaf.jpg'') = Returns (Some
          ''{"plant":{"common_name":"Tomato"},"health":{"score":80},"issues":[{"name":"Blight"}],"treatment":{"chemical":[{"product":"Mancozeb"}]}}'')\<close>
    by (simp add: E_def const_env_def)
  from analyze_plant_tomato [OF a b] obtain payload where
    \<open>analyze_plant E ''leaf.jpg'' ''en'' 0 = Some (Inr (JObject payload), 0 + 1)\<close>
    \<open>map_of payload ''summary'' = Some (JString
          ''Identified: Tomato. Health score: 80/100. Primary issue: Blight. Recommended treatment: Mancozeb.'')\<close>
    \<open>map_of payload ''medicine_links'' = Some (JObject [(''url'',
              JString ''https://www.bighaat.com/products/indofil-m-45-mancozeb-75-wp-500-gm'')])\<close>
    by blast
  then show ?thesis
    unfolding E_def by (intro exI [of _ payload]) simp
qed

end
